theory Spec2Isabelle
  imports Complex_Main
begin

section \<open>The Pomodoro timer component (src/src/App.tsx)\<close>

text \<open>
  The component \<^verbatim>\<open>App\<close> keeps four pieces of React state (\<^verbatim>\<open>mode\<close>,
  \<^verbatim>\<open>timeLeft\<close>, \<^verbatim>\<open>isRunning\<close>, \<^verbatim>\<open>completedPomodoros\<close>), one ref
  (\<^verbatim>\<open>intervalRef\<close>) and one effect with the dependency array
  \<^verbatim>\<open>[isRunning, timeLeft, mode]\<close>. Three event handlers and the callback of the
  interval change the state; after every change React renders again and, when one of the
  dependencies differs from the previous render, runs the clean-up of the previous effect
  and then the effect body.

  The model passes the state explicitly. Besides the component's own state the record holds
  what the runtime keeps for it: the interval timers that are alive in the browser, the next
  timer handle the browser will hand out, and the dependency values of the last effect run.
  JavaScript numbers that only ever hold small integers are modelled as \<open>int\<close>.
\<close>

subsection \<open>Data\<close>

datatype TimerMode = focus | shortBreak | longBreak

text \<open>The table \<^verbatim>\<open>TIMER_DURATIONS\<close>: \<^verbatim>\<open>25 * 60\<close>, \<^verbatim>\<open>5 * 60\<close>, \<^verbatim>\<open>15 * 60\<close>.\<close>

fun TIMER_DURATIONS :: "TimerMode \<Rightarrow> int" where
  "TIMER_DURATIONS focus = 25 * 60"
| "TIMER_DURATIONS shortBreak = 5 * 60"
| "TIMER_DURATIONS longBreak = 15 * 60"

record AppState =
  mode :: TimerMode
  timeLeft :: int
  isRunning :: bool
  completedPomodoros :: int
  intervalRef :: "nat option"
  timers :: "nat list"
  nextHandle :: nat
  effectDeps :: "(bool \<times> int \<times> TimerMode) option"

text \<open>
  \<open>intervalRef\<close> is \<^verbatim>\<open>useRef<number | null>(null)\<close>: \<open>None\<close> is \<^verbatim>\<open>null\<close>.
  \<open>timers\<close> lists the handles of the intervals created by \<^verbatim>\<open>window.setInterval\<close> and not
  yet cleared; \<open>nextHandle\<close> is the handle the next \<^verbatim>\<open>setInterval\<close> returns (browsers hand
  out positive integers, counting upwards). \<open>effectDeps\<close> holds the values of
  \<^verbatim>\<open>[isRunning, timeLeft, mode]\<close> at the last run of the effect, \<open>None\<close> before the
  component is mounted.
\<close>

subsection \<open>Derived values of a render\<close>

definition totalTime :: "AppState \<Rightarrow> int" where
  "totalTime s = TIMER_DURATIONS (mode s)"

text \<open>\<^verbatim>\<open>progress = 1 - timeLeft / totalTime\<close>, with the quotient taken in the reals.\<close>

definition progress :: "AppState \<Rightarrow> real" where
  "progress s = 1 - real_of_int (timeLeft s) / real_of_int (totalTime s)"

subsection \<open>The effect\<close>

definition deps :: "AppState \<Rightarrow> bool \<times> int \<times> TimerMode" where
  "deps s = (isRunning s, timeLeft s, mode s)"

text \<open>
  The function returned by the effect:
  \<^verbatim>\<open>if (intervalRef.current) clearInterval(intervalRef.current)\<close>. A handle is truthy
  when it is neither \<^verbatim>\<open>null\<close> nor \<^verbatim>\<open>0\<close>. The ref keeps the handle afterwards.
\<close>

definition cleanup :: "AppState \<Rightarrow> AppState" where
  "cleanup s =
     (case intervalRef s of
        None \<Rightarrow> s
      | Some h \<Rightarrow> if h \<noteq> 0 then s\<lparr>timers := removeAll h (timers s)\<rparr> else s)"

text \<open>
  The body of the effect. The first branch creates an interval and stores its handle in the
  ref; the second performs the two state updates \<^verbatim>\<open>setIsRunning(false)\<close> and, in focus
  mode, \<^verbatim>\<open>setCompletedPomodoros((prev) => prev + 1)\<close>. The second branch is tried whenever
  the first condition fails, so also when \<open>isRunning\<close> is already false.
\<close>

definition effectBody :: "AppState \<Rightarrow> AppState" where
  "effectBody s =
     (if isRunning s \<and> timeLeft s > 0 then
        s\<lparr>intervalRef := Some (nextHandle s),
          timers := timers s @ [nextHandle s],
          nextHandle := nextHandle s + 1\<rparr>
      else if timeLeft s = 0 then
        s\<lparr>isRunning := False,
          completedPomodoros :=
            (if mode s = focus then completedPomodoros s + 1 else completedPomodoros s)\<rparr>
      else s)"

text \<open>
  One run of the effect after a render whose dependencies changed: the clean-up of the
  previous run (there is none at mount), then the body. The dependencies recorded are those
  of the render that ran the effect, before the body's own state updates.
\<close>

definition runEffect :: "AppState \<Rightarrow> AppState" where
  "runEffect s =
     (effectBody (if effectDeps s = None then s else cleanup s))
       \<lparr>effectDeps := Some (deps s)\<rparr>"

text \<open>
  React renders and runs the effect again until a render leaves the dependencies as the last
  effect run saw them.
\<close>

function flush :: "AppState \<Rightarrow> AppState" where
  "flush s = (if effectDeps s = Some (deps s) then s else flush (runEffect s))"
  by pat_completeness auto
termination
proof (relation "measure (\<lambda>s. if effectDeps s = Some (deps s) then 0
                               else if isRunning s \<and> timeLeft s = 0 then 2 else 1)")
  show "wf (measure (\<lambda>s. if effectDeps s = Some (deps s) then 0
                          else if isRunning s \<and> timeLeft s = 0 then 2 else (1::nat)))"
    by simp
next
  fix s :: AppState
  assume "effectDeps s \<noteq> Some (deps s)"
  then show "(runEffect s, s) \<in> measure (\<lambda>s. if effectDeps s = Some (deps s) then 0
                          else if isRunning s \<and> timeLeft s = 0 then 2 else 1)"
    by (cases "intervalRef s")
       (auto simp: runEffect_def effectBody_def cleanup_def deps_def)
qed

declare flush.simps [simp del]

subsection \<open>Mounting, event handlers, the interval callback, unmounting\<close>

definition initial :: AppState where
  "initial = flush
     \<lparr>mode = focus, timeLeft = TIMER_DURATIONS focus, isRunning = False,
      completedPomodoros = 0, intervalRef = None, timers = [], nextHandle = 1,
      effectDeps = None\<rparr>"

definition handleModeChange :: "TimerMode \<Rightarrow> AppState \<Rightarrow> AppState" where
  "handleModeChange newMode s =
     flush (s\<lparr>mode := newMode, timeLeft := TIMER_DURATIONS newMode, isRunning := False\<rparr>)"

definition toggleTimer :: "AppState \<Rightarrow> AppState" where
  "toggleTimer s = flush (s\<lparr>isRunning := \<not> isRunning s\<rparr>)"

definition resetTimer :: "AppState \<Rightarrow> AppState" where
  "resetTimer s = flush (s\<lparr>timeLeft := TIMER_DURATIONS (mode s), isRunning := False\<rparr>)"

text \<open>
  The callback \<^verbatim>\<open>setTimeLeft((prev) => prev - 1)\<close> belongs to an interval: it fires only
  while an interval is alive. With no interval alive nothing fires and the state stays as
  it is.
\<close>

definition tick :: "AppState \<Rightarrow> AppState" where
  "tick s = (if timers s = [] then s else flush (s\<lparr>timeLeft := timeLeft s - 1\<rparr>))"

text \<open>Unmounting the component runs the clean-up of the last effect.\<close>

definition unmount :: "AppState \<Rightarrow> AppState" where
  "unmount s = cleanup s"

datatype Event = SelectMode TimerMode | Toggle | Reset | Tick

fun step :: "Event \<Rightarrow> AppState \<Rightarrow> AppState" where
  "step (SelectMode m) s = handleModeChange m s"
| "step Toggle s = toggleTimer s"
| "step Reset s = resetTimer s"
| "step Tick s = tick s"

text \<open>\<open>run es s\<close> applies the events of \<open>es\<close> from left to right.\<close>

definition run :: "Event list \<Rightarrow> AppState \<Rightarrow> AppState" where
  "run es s = fold step es s"

subsection \<open>The time display\<close>

text \<open>
  \<^verbatim>\<open>Number.prototype.toString\<close> for an integer: decimal digits, with a minus sign in front
  of a negative number.
\<close>

definition digit :: "nat \<Rightarrow> char" where
  "digit d = ''0123456789'' ! d"

fun natToString :: "nat \<Rightarrow> string" where
  "natToString n = (if n < 10 then [digit n] else natToString (n div 10) @ [digit (n mod 10)])"

declare natToString.simps [simp del]

definition toString :: "int \<Rightarrow> string" where
  "toString i = (if i < 0 then CHR ''-'' # natToString (nat (- i)) else natToString (nat i))"

text \<open>\<^verbatim>\<open>padStart(n, '0')\<close>: zeros in front until the string has n characters.\<close>

definition padStart :: "nat \<Rightarrow> char \<Rightarrow> string \<Rightarrow> string" where
  "padStart n c str = replicate (n - length str) c @ str"

text \<open>
  \<^verbatim>\<open>seconds % 60\<close> is JavaScript's remainder, which takes the sign of the dividend;
  \<^verbatim>\<open>Math.floor(seconds / 60)\<close> rounds towards minus infinity, as \<open>div\<close> on \<open>int\<close> does.
\<close>

definition jsRem :: "int \<Rightarrow> int \<Rightarrow> int" where
  "jsRem a b = sgn a * (\<bar>a\<bar> mod \<bar>b\<bar>)"

definition formatTime :: "int \<Rightarrow> string" where
  "formatTime seconds =
     (let mins = seconds div 60;
          secs = jsRem seconds 60
      in padStart 2 CHR ''0'' (toString mins) @ CHR '':'' # padStart 2 CHR ''0'' (toString secs))"

subsection \<open>Scenarios and the invariant of rendered states\<close>

text \<open>
  Scenario A of the specification: from the mounted component, press Start and let the
  interval fire 1500 times.
\<close>

definition scenarioA :: AppState where
  "scenarioA = (tick ^^ 1500) (toggleTimer initial)"

text \<open>
  What holds of the state once React has finished rendering after an event: the effect has
  seen the current dependencies, the time left is within the duration of the mode, a running
  timer has time left, the ref holds a handle the browser has handed out, and the only
  interval alive is the one in the ref, alive exactly while the timer runs. The counter is
  even and not negative.
\<close>

definition settled :: "AppState \<Rightarrow> bool" where
  "settled s \<longleftrightarrow>
     effectDeps s = Some (deps s) \<and>
     0 \<le> timeLeft s \<and> timeLeft s \<le> TIMER_DURATIONS (mode s) \<and>
     (isRunning s \<longrightarrow> 0 < timeLeft s) \<and>
     0 \<le> completedPomodoros s \<and> even (completedPomodoros s) \<and>
     0 < nextHandle s \<and>
     (case intervalRef s of
        None \<Rightarrow> timers s = [] \<and> \<not> isRunning s
      | Some h \<Rightarrow> 0 < h \<and> h < nextHandle s \<and>
                  timers s = (if isRunning s then [h] else []))"

section \<open>Basic facts about the effect loop\<close>

lemma flush_stable: "effectDeps s = Some (deps s) \<Longrightarrow> flush s = s"
  by (simp add: flush.simps)

lemma flush_step: "effectDeps s \<noteq> Some (deps s) \<Longrightarrow> flush s = flush (runEffect s)"
  by (subst flush.simps) simp

lemma runEffect_twice_stable:
  "isRunning s \<and> timeLeft s = 0 \<Longrightarrow>
     effectDeps (runEffect (runEffect s)) = Some (deps (runEffect (runEffect s)))"
  by (cases "intervalRef s")
     (auto simp: runEffect_def effectBody_def cleanup_def deps_def)

lemma runEffect_once_stable:
  "\<not> (isRunning s \<and> timeLeft s = 0) \<Longrightarrow>
     effectDeps (runEffect s) = Some (deps (runEffect s))"
  by (cases "intervalRef s")
     (auto simp: runEffect_def effectBody_def cleanup_def deps_def)

lemma runEffect_once_unstable:
  "isRunning s \<and> timeLeft s = 0 \<Longrightarrow>
     effectDeps (runEffect s) \<noteq> Some (deps (runEffect s))"
  by (cases "intervalRef s")
     (auto simp: runEffect_def effectBody_def cleanup_def deps_def)

lemma flush_unfold:
  "flush s =
     (if effectDeps s = Some (deps s) then s
      else if isRunning s \<and> timeLeft s = 0 then runEffect (runEffect s)
      else runEffect s)"
proof (cases "effectDeps s = Some (deps s)")
  case True
  then show ?thesis by (simp add: flush_stable)
next
  case False
  note unstable = this
  show ?thesis
  proof (cases "isRunning s \<and> timeLeft s = 0")
    case True
    have "flush s = flush (runEffect s)"
      using unstable by (rule flush_step)
    also have "\<dots> = flush (runEffect (runEffect s))"
      using runEffect_once_unstable [OF True] by (rule flush_step)
    also have "\<dots> = runEffect (runEffect s)"
      using runEffect_twice_stable [OF True] by (rule flush_stable)
    finally show ?thesis using unstable True by simp
  next
    case False
    have "flush s = flush (runEffect s)"
      using unstable by (rule flush_step)
    also have "\<dots> = runEffect s"
      using runEffect_once_stable [OF False] by (rule flush_stable)
    finally show ?thesis using unstable False by auto
  qed
qed

section \<open>The invariant\<close>

lemma duration_pos: "0 < TIMER_DURATIONS m"
  by (cases m) simp_all

lemma settled_initial: "settled initial"
  by (simp add: initial_def flush_unfold runEffect_def effectBody_def deps_def settled_def)

lemma settled_handleModeChange: "settled s \<Longrightarrow> settled (handleModeChange m s)"
  using duration_pos [of m]
  by (cases "intervalRef s")
     (auto simp: handleModeChange_def flush_unfold runEffect_def effectBody_def cleanup_def
        deps_def settled_def)

lemma settled_toggleTimer: "settled s \<Longrightarrow> settled (toggleTimer s)"
  by (cases "intervalRef s")
     (auto simp: toggleTimer_def flush_unfold runEffect_def effectBody_def cleanup_def
        deps_def settled_def)

lemma settled_resetTimer: "settled s \<Longrightarrow> settled (resetTimer s)"
  using duration_pos [of "mode s"]
  by (cases "intervalRef s")
     (auto simp: resetTimer_def flush_unfold runEffect_def effectBody_def cleanup_def
        deps_def settled_def)

lemma settled_tick: "settled s \<Longrightarrow> settled (tick s)"
  by (cases "intervalRef s")
     (auto simp: tick_def flush_unfold runEffect_def effectBody_def cleanup_def
        deps_def settled_def)

lemma settled_step: "settled s \<Longrightarrow> settled (step e s)"
  by (cases e)
     (simp_all add: settled_handleModeChange settled_toggleTimer settled_resetTimer settled_tick)

lemma settled_run: "settled s \<Longrightarrow> settled (run es s)"
  unfolding run_def by (induction es arbitrary: s) (simp_all add: settled_step)

lemma settled_reachable: "settled (run es initial)"
  by (rule settled_run [OF settled_initial])

section \<open>Selecting a mode\<close>

text \<open>
  Claim C4. For every mode \<open>m\<close> and every prior state, running or not and with any time
  left, \<open>handleModeChange m\<close> yields \<open>mode = m\<close>, \<open>timeLeft = TIMER_DURATIONS m\<close> and
  \<open>isRunning = False\<close>, and leaves \<open>completedPomodoros\<close> as it was; selecting the long break
  (also while running in focus mode) leaves 900 seconds.
\<close>

theorem handleModeChange_sets_mode:
  "mode (handleModeChange m s) = m \<and>
   timeLeft (handleModeChange m s) = TIMER_DURATIONS m \<and>
   isRunning (handleModeChange m s) = False \<and>
   completedPomodoros (handleModeChange m s) = completedPomodoros s \<and>
   timeLeft (handleModeChange longBreak s) = 900"
  using duration_pos [of m]
  by (cases "intervalRef s")
     (auto simp: handleModeChange_def flush_unfold runEffect_def effectBody_def cleanup_def
        deps_def)

section \<open>Reset\<close>

text \<open>
  Claim C6. For every state, \<open>resetTimer\<close> yields \<open>timeLeft = TIMER_DURATIONS mode\<close> for the
  current mode, which it keeps, and \<open>isRunning = False\<close>; resetting twice in a row gives the
  same state as resetting once.
\<close>

theorem resetTimer_idempotent:
  "timeLeft (resetTimer s) = TIMER_DURATIONS (mode s) \<and>
   isRunning (resetTimer s) = False \<and>
   mode (resetTimer s) = mode s \<and>
   resetTimer (resetTimer s) = resetTimer s"
  using duration_pos [of "mode s"]
  by (cases "intervalRef s")
     (auto simp: resetTimer_def flush_unfold runEffect_def effectBody_def cleanup_def
        deps_def)

section \<open>The counter never decreases\<close>

lemma completed_runEffect: "completedPomodoros s \<le> completedPomodoros (runEffect s)"
  by (cases "intervalRef s")
     (auto simp: runEffect_def effectBody_def cleanup_def)

lemma completed_flush: "completedPomodoros s \<le> completedPomodoros (flush s)"
  using completed_runEffect [of s] completed_runEffect [of "runEffect s"]
  by (simp add: flush_unfold)

lemma completed_step: "completedPomodoros s \<le> completedPomodoros (step e s)"
proof (cases e)
  case (SelectMode m)
  then show ?thesis
    using completed_flush [of "s\<lparr>mode := m, timeLeft := TIMER_DURATIONS m, isRunning := False\<rparr>"]
    by (simp add: handleModeChange_def)
next
  case Toggle
  then show ?thesis
    using completed_flush [of "s\<lparr>isRunning := \<not> isRunning s\<rparr>"]
    by (simp add: toggleTimer_def)
next
  case Reset
  then show ?thesis
    using completed_flush [of "s\<lparr>timeLeft := TIMER_DURATIONS (mode s), isRunning := False\<rparr>"]
    by (simp add: resetTimer_def)
next
  case Tick
  then show ?thesis
    using completed_flush [of "s\<lparr>timeLeft := timeLeft s - 1\<rparr>"]
    by (simp add: tick_def)
qed

lemma completed_run: "completedPomodoros s \<le> completedPomodoros (run es s)"
  unfolding run_def
proof (induction es arbitrary: s)
  case Nil
  show ?case by simp
next
  case (Cons e es)
  have "completedPomodoros s \<le> completedPomodoros (step e s)"
    by (rule completed_step)
  also have "\<dots> \<le> completedPomodoros (fold step es (step e s))"
    by (rule Cons.IH)
  finally show ?case by simp
qed

text \<open>
  Claim C3. No operation lowers \<open>completedPomodoros\<close>: not a single event from any state,
  not a sequence of events from any state, and so not a continuation of any run from the
  mounted component.
\<close>

theorem completedPomodoros_never_decreases:
  "completedPomodoros s \<le> completedPomodoros (step e s) \<and>
   completedPomodoros s \<le> completedPomodoros (run es s) \<and>
   completedPomodoros (run es initial) \<le> completedPomodoros (run (es @ es') initial)"
proof -
  have "run (es @ es') initial = run es' (run es initial)"
    by (simp add: run_def)
  then show ?thesis
    using completed_step [of s e] completed_run [of s es]
      completed_run [of "run es initial" es']
    by simp
qed

section \<open>The time left stays within the duration of the mode\<close>

lemma run_snoc: "run (es @ [e]) s = step e (run es s)"
  by (simp add: run_def)

text \<open>
  Claim C2. In every state reached from the mounted component by mode selections, toggles,
  resets and ticks, and after one more operation of any kind, \<open>timeLeft\<close> is at least 0 and
  at most the duration of the current mode, where the durations are 1500, 300 and 900
  seconds; in particular a tick never makes \<open>timeLeft\<close> negative.
\<close>

theorem timeLeft_within_duration:
  "0 \<le> timeLeft (run es initial) \<and>
   timeLeft (run es initial) \<le> TIMER_DURATIONS (mode (run es initial)) \<and>
   0 \<le> timeLeft (step e (run es initial)) \<and>
   timeLeft (step e (run es initial)) \<le> TIMER_DURATIONS (mode (step e (run es initial))) \<and>
   0 \<le> timeLeft (tick (run es initial)) \<and>
   TIMER_DURATIONS focus = 1500 \<and> TIMER_DURATIONS shortBreak = 300 \<and>
   TIMER_DURATIONS longBreak = 900"
  using settled_reachable [of es] settled_step [OF settled_reachable, of e es]
    settled_tick [OF settled_reachable, of es]
  by (simp add: settled_def)

section \<open>Counting down\<close>

lemma tick_running:
  assumes "settled s" "isRunning s" "1 < timeLeft s"
  shows "settled (tick s) \<and> isRunning (tick s) \<and> timeLeft (tick s) = timeLeft s - 1 \<and>
         mode (tick s) = mode s \<and> completedPomodoros (tick s) = completedPomodoros s"
  using assms settled_tick [OF assms(1)]
  by (cases "intervalRef s")
     (auto simp: tick_def flush_unfold runEffect_def effectBody_def cleanup_def
        deps_def settled_def)

lemma tick_expires:
  assumes "settled s" "isRunning s" "timeLeft s = 1"
  shows "settled (tick s) \<and> \<not> isRunning (tick s) \<and> timeLeft (tick s) = 0 \<and>
         mode (tick s) = mode s \<and>
         completedPomodoros (tick s) =
           (if mode s = focus then completedPomodoros s + 2 else completedPomodoros s)"
  using assms settled_tick [OF assms(1)]
  by (cases "intervalRef s")
     (auto simp: tick_def flush_unfold runEffect_def effectBody_def cleanup_def
        deps_def settled_def)

lemma ticks_running:
  "settled s \<Longrightarrow> isRunning s \<Longrightarrow> int k < timeLeft s \<Longrightarrow>
     settled ((tick ^^ k) s) \<and> isRunning ((tick ^^ k) s) \<and>
     timeLeft ((tick ^^ k) s) = timeLeft s - int k \<and>
     mode ((tick ^^ k) s) = mode s \<and>
     completedPomodoros ((tick ^^ k) s) = completedPomodoros s"
proof (induction k)
  case 0
  then show ?case by simp
next
  case (Suc k)
  let ?t = "(tick ^^ k) s"
  from Suc have before: "settled ?t" "isRunning ?t" "timeLeft ?t = timeLeft s - int k"
    "mode ?t = mode s" "completedPomodoros ?t = completedPomodoros s"
    by simp_all
  from Suc.prems before have "1 < timeLeft ?t" by simp
  from tick_running [OF before(1,2) this] before show ?case by simp
qed

lemma ticks_to_zero:
  assumes "settled s" "isRunning s" "timeLeft s = int (Suc k)"
  shows "settled ((tick ^^ Suc k) s) \<and> \<not> isRunning ((tick ^^ Suc k) s) \<and>
         timeLeft ((tick ^^ Suc k) s) = 0 \<and> mode ((tick ^^ Suc k) s) = mode s \<and>
         completedPomodoros ((tick ^^ Suc k) s) =
           (if mode s = focus then completedPomodoros s + 2 else completedPomodoros s)"
proof -
  let ?t = "(tick ^^ k) s"
  from assms have "int k < timeLeft s" by simp
  from ticks_running [OF assms(1,2) this] assms(3)
  have before: "settled ?t" "isRunning ?t" "timeLeft ?t = 1" "mode ?t = mode s"
    "completedPomodoros ?t = completedPomodoros s"
    by simp_all
  from tick_expires [OF before(1,2,3)] before show ?thesis by simp
qed

section \<open>Scenario A: one focus interval run to its end\<close>

lemma initial_eq:
  "initial = \<lparr>mode = focus, timeLeft = 1500, isRunning = False,
      completedPomodoros = 0, intervalRef = None, timers = [], nextHandle = 1,
      effectDeps = Some (False, 1500, focus)\<rparr>"
  by (simp add: initial_def flush_unfold runEffect_def effectBody_def deps_def)

lemma toggle_initial_eq:
  "toggleTimer initial = \<lparr>mode = focus, timeLeft = 1500, isRunning = True,
      completedPomodoros = 0, intervalRef = Some 1, timers = [1], nextHandle = 2,
      effectDeps = Some (True, 1500, focus)\<rparr>"
  by (simp add: initial_eq toggleTimer_def flush_unfold runEffect_def effectBody_def
      cleanup_def deps_def)

lemma scenarioA_facts:
  "settled scenarioA \<and> \<not> isRunning scenarioA \<and> timeLeft scenarioA = 0 \<and>
   mode scenarioA = focus \<and> completedPomodoros scenarioA = 2"
proof -
  let ?s = "toggleTimer initial"
  have s: "settled ?s" by (rule settled_toggleTimer [OF settled_initial])
  have r: "isRunning ?s" and t: "timeLeft ?s = int (Suc 1499)"
    and m: "mode ?s = focus" and c: "completedPomodoros ?s = 0"
    by (simp_all add: toggle_initial_eq)
  have n: "Suc 1499 = 1500" by simp
  from ticks_to_zero [OF s r t] m c show ?thesis
    unfolding scenarioA_def n by simp
qed

text \<open>
  Claim C1. The claim expects Scenario A to end with \<open>timeLeft = 0\<close>, the timer stopped
  and one completed session. In the code the scenario ends with \<open>timeLeft = 0\<close> and the
  timer stopped, but with \<open>completedPomodoros = 2\<close>: the effect runs once when \<open>timeLeft\<close>
  becomes 0 and once more when its own \<^verbatim>\<open>setIsRunning(false)\<close> changes the dependency
  \<open>isRunning\<close>, and both runs take the branch \<^verbatim>\<open>else if (timeLeft === 0)\<close>. Once an
  event has been processed to its end the counter is never 1: the value 1, for which the
  component has a singular label, is held only by the render between the two effect runs.
\<close>

theorem scenarioA_counts_twice:
  "timeLeft scenarioA = 0 \<and> isRunning scenarioA = False \<and>
   completedPomodoros scenarioA = 2 \<and>
   completedPomodoros (run es initial) \<noteq> 1"
proof -
  have "even (completedPomodoros (run es initial))"
    using settled_reachable [of es] by (simp add: settled_def)
  then have "completedPomodoros (run es initial) \<noteq> 1" by auto
  then show ?thesis using scenarioA_facts by simp
qed

lemma step_Tick: "step Tick = tick"
  by (rule ext) simp

lemma run_scenarioA: "run (Toggle # replicate 1500 Tick) initial = scenarioA"
  by (simp add: run_def scenarioA_def fold_replicate step_Tick)


section \<open>Break intervals do not count\<close>



lemma mode_flush: "mode (flush u) = mode u"
  by (cases "intervalRef u")
     (auto simp: flush_unfold runEffect_def effectBody_def cleanup_def deps_def)





section \<open>Pressing Start with no time left\<close>

text \<open>
  In a rendered state with no time left, pressing Start sets \<open>isRunning\<close>, the effect runs,
  takes the expiry branch and sets \<open>isRunning\<close> back to false; that change runs the effect a
  second time, which takes the expiry branch again. No interval is created and \<open>timeLeft\<close>
  stays 0. In focus mode each of the two runs adds 1 to the counter; in the break modes the
  state ends exactly as it was.
\<close>

lemma toggle_at_zero_settled:
  assumes "settled s" "timeLeft s = 0"
  shows "isRunning (toggleTimer s) = False \<and> timeLeft (toggleTimer s) = 0 \<and>
         mode (toggleTimer s) = mode s \<and> timers (toggleTimer s) = [] \<and>
         (if mode s = focus
          then completedPomodoros (toggleTimer s) = completedPomodoros s + 2
          else toggleTimer s = s)"
  using assms
  by (cases "intervalRef s")
     (auto simp: toggleTimer_def flush_unfold runEffect_def effectBody_def cleanup_def
        deps_def settled_def)

lemma toggle_at_zero_exact:
  assumes "timeLeft (run es initial) = 0"
  shows "isRunning (toggleTimer (run es initial)) = False \<and>
         timeLeft (toggleTimer (run es initial)) = 0 \<and>
         mode (toggleTimer (run es initial)) = mode (run es initial) \<and>
         timers (toggleTimer (run es initial)) = [] \<and>
         (if mode (run es initial) = focus
          then completedPomodoros (toggleTimer (run es initial)) =
                 completedPomodoros (run es initial) + 2
          else toggleTimer (run es initial) = run es initial)"
  by (rule toggle_at_zero_settled [OF settled_reachable assms])

text \<open>
  Claim C10. The claim expects that pressing Start with no time left stops the timer again
  without a countdown step, leaves \<open>timeLeft\<close> at 0 and, in focus mode, adds 1 to
  \<open>completedPomodoros\<close>. At the end of Scenario A (focus mode, no time left, reached by the
  events Toggle and 1500 ticks) the code does stop the timer again and leaves \<open>timeLeft\<close> at
  0, but it adds 2 to the counter, not 1: the expiry branch
  \<^verbatim>\<open>else if (timeLeft === 0)\<close> does not ask whether the timer was running, so the effect
  run caused by its own \<^verbatim>\<open>setIsRunning(false)\<close> counts a second time. This is the double
  count of Scenario A itself.
\<close>

theorem toggle_at_zero_counts_twice:
  "run (Toggle # replicate 1500 Tick) initial = scenarioA \<and>
   timeLeft scenarioA = 0 \<and> mode scenarioA = focus \<and> isRunning scenarioA = False \<and>
   isRunning (toggleTimer scenarioA) = False \<and>
   timeLeft (toggleTimer scenarioA) = 0 \<and>
   completedPomodoros (toggleTimer scenarioA) = completedPomodoros scenarioA + 2 \<and>
   completedPomodoros (toggleTimer scenarioA) \<noteq> completedPomodoros scenarioA + 1"
proof -
  have facts: "settled scenarioA" "timeLeft scenarioA = 0" "mode scenarioA = focus"
    "isRunning scenarioA = False"
    using scenarioA_facts by simp_all
  from toggle_at_zero_settled [OF facts(1,2)] facts run_scenarioA
  show ?thesis by simp
qed

section \<open>The interval timer\<close>

lemma timers_settled:
  assumes "settled s"
  shows "length (timers s) \<le> 1 \<and>
         (timers s \<noteq> []) = (isRunning s \<and> 0 < timeLeft s) \<and>
         timers (unmount s) = [] \<and>
         timers (handleModeChange m s) = []"
  using assms duration_pos [of m]
  by (cases "intervalRef s")
     (auto simp: unmount_def handleModeChange_def flush_unfold runEffect_def effectBody_def
        cleanup_def deps_def settled_def)

text \<open>
  Claim C5. In every reachable state at most one interval is alive; one is alive exactly
  when \<open>isRunning\<close> holds and \<open>timeLeft\<close> is positive, so none is alive once \<open>isRunning\<close> is
  false. None is alive after the component is unmounted, and none after a mode is selected.
  The effect body creates an interval only when \<open>isRunning\<close> holds and \<open>timeLeft\<close> is
  positive. Events are taken one at a time, each with the renders and effect runs it
  causes.
\<close>

theorem at_most_one_interval:
  "length (timers (run es initial)) \<le> 1 \<and>
   (timers (run es initial) \<noteq> []) =
     (isRunning (run es initial) \<and> 0 < timeLeft (run es initial)) \<and>
   timers (unmount (run es initial)) = [] \<and>
   timers (handleModeChange m (run es initial)) = [] \<and>
   timers (effectBody s) =
     (if isRunning s \<and> 0 < timeLeft s then timers s @ [nextHandle s] else timers s)"
  using timers_settled [OF settled_reachable, of es m]
  by (simp add: effectBody_def)

section \<open>Progress of the current interval\<close>

text \<open>
  Claim C8. In every state \<open>totalTime\<close> is the duration of the mode, which is strictly
  positive, and \<open>progress\<close> is \<open>1 - timeLeft / totalTime\<close>; when \<open>timeLeft\<close> lies between 0
  and the duration of the mode, as it does in every reachable state, \<open>progress\<close> lies
  between 0 and 1.
\<close>

theorem progress_in_unit_interval:
  "totalTime s = TIMER_DURATIONS (mode s) \<and>
   progress s = 1 - real_of_int (timeLeft s) / real_of_int (totalTime s) \<and>
   0 < totalTime s \<and>
   (0 \<le> timeLeft s \<and> timeLeft s \<le> TIMER_DURATIONS (mode s) \<longrightarrow>
      0 \<le> progress s \<and> progress s \<le> 1) \<and>
   0 \<le> progress (run es initial) \<and> progress (run es initial) \<le> 1"
proof -
  have pos: "0 < totalTime t" for t
    by (simp add: totalTime_def duration_pos)
  have range: "0 \<le> progress t \<and> progress t \<le> 1"
    if "0 \<le> timeLeft t" "timeLeft t \<le> TIMER_DURATIONS (mode t)" for t
  proof -
    from that(2) have "real_of_int (timeLeft t) \<le> real_of_int (totalTime t)"
      by (simp add: totalTime_def)
    with pos [of t] that(1) show ?thesis
      by (simp add: progress_def)
  qed
  have "0 \<le> timeLeft (run es initial)"
    "timeLeft (run es initial) \<le> TIMER_DURATIONS (mode (run es initial))"
    using settled_reachable [of es] by (simp_all add: settled_def)
  from range [OF this] range [of s] pos [of s] show ?thesis
    by (simp add: totalTime_def progress_def)
qed

theorem progress_in_unit_interval_witness:
  "0 \<le> timeLeft (toggleTimer initial) \<and>
   timeLeft (toggleTimer initial) \<le> TIMER_DURATIONS (mode (toggleTimer initial)) \<and>
   0 \<le> progress (toggleTimer initial) \<and> progress (toggleTimer initial) \<le> 1"
proof -
  have "0 \<le> timeLeft (toggleTimer initial)"
    "timeLeft (toggleTimer initial) \<le> TIMER_DURATIONS (mode (toggleTimer initial))"
    by (simp_all add: toggle_initial_eq)
  with progress_in_unit_interval [of "toggleTimer initial" "[]"] show ?thesis by blast
qed

text \<open>
  JavaScript evaluates the quotient and the difference in double precision, rounding each
  result. Rounding is monotone and leaves 0 and 1 as they are, so the rounded value is
  within the same bounds.
\<close>

lemma progress_rounded_in_unit_interval:
  fixes rnd :: "real \<Rightarrow> real"
  assumes "mono rnd" "rnd 0 = 0" "rnd 1 = 1"
    and "0 \<le> timeLeft s" "timeLeft s \<le> TIMER_DURATIONS (mode s)"
  shows "0 \<le> rnd (1 - rnd (real_of_int (timeLeft s) / real_of_int (totalTime s))) \<and>
         rnd (1 - rnd (real_of_int (timeLeft s) / real_of_int (totalTime s))) \<le> 1"
proof -
  let ?q = "real_of_int (timeLeft s) / real_of_int (totalTime s)"
  have pos: "0 < real_of_int (totalTime s)"
    by (simp add: totalTime_def duration_pos)
  from assms(5) have "real_of_int (timeLeft s) \<le> real_of_int (totalTime s)"
    by (simp add: totalTime_def)
  with pos assms(4) have q: "0 \<le> ?q" "?q \<le> 1" by simp_all
  from monoD [OF assms(1) q(1)] monoD [OF assms(1) q(2)] assms(2,3)
  have "0 \<le> 1 - rnd ?q" "1 - rnd ?q \<le> 1" by simp_all
  from monoD [OF assms(1) this(1)] monoD [OF assms(1) this(2)] assms(2,3)
  show ?thesis by simp
qed

section \<open>The time display\<close>

lemma digit_0: "digit 0 = CHR ''0''"
  by (simp add: digit_def)

lemma pad_two_digits:
  assumes "k < 100"
  shows "padStart 2 CHR ''0'' (natToString k) = [digit (k div 10), digit (k mod 10)]"
proof (cases "k < 10")
  case True
  then show ?thesis
    by (simp add: natToString.simps [of k] padStart_def digit_0)
next
  case False
  with assms have "k div 10 < 10" by simp
  with False show ?thesis
    by (simp add: natToString.simps [of k] natToString.simps [of "k div 10"] padStart_def)
qed

text \<open>
  Claim C9. For every \<open>n\<close> from 0 up to the duration of a mode, \<open>formatTime n\<close> is five
  characters: the tens and units digit of \<open>n div 60\<close>, a colon, and the tens and units digit
  of \<open>n mod 60\<close>, so both parts have two digits with a leading zero where needed. 65
  seconds are shown as 01:05 and 0 seconds as 00:00.
\<close>

theorem formatTime_MM_SS:
  "(0 \<le> n \<and> n \<le> TIMER_DURATIONS m \<longrightarrow>
      formatTime n =
        [digit (nat (n div 60) div 10), digit (nat (n div 60) mod 10), CHR '':'',
         digit (nat (n mod 60) div 10), digit (nat (n mod 60) mod 10)]) \<and>
   formatTime 65 = ''01:05'' \<and> formatTime 0 = ''00:00''"
proof -
  have general: "formatTime n =
        [digit (nat (n div 60) div 10), digit (nat (n div 60) mod 10), CHR '':'',
         digit (nat (n mod 60) div 10), digit (nat (n mod 60) mod 10)]"
    if "0 \<le> n" "n < 6000" for n
  proof -
    from that have mins: "\<not> n div 60 < 0" "nat (n div 60) < 100" by simp_all
    from that have secs: "\<not> n mod 60 < 0" "nat (n mod 60) < 100" by simp_all
    from that have rem: "jsRem n 60 = n mod 60"
      by (simp add: jsRem_def sgn_if)
    show ?thesis
      using mins(1) secs(1) pad_two_digits [OF mins(2)] pad_two_digits [OF secs(2)]
      by (simp add: formatTime_def rem toString_def Let_def)
  qed
  have "n < 6000" if "n \<le> TIMER_DURATIONS m"
    using that by (cases m) simp_all
  with general [of n] general [of 65] general [of 0] show ?thesis
    by (auto simp: digit_def)
qed

theorem formatTime_MM_SS_witness:
  "(0::int) \<le> 1500 \<and> (1500::int) \<le> TIMER_DURATIONS focus \<and> formatTime 1500 = ''25:00''"
  using formatTime_MM_SS [of 1500 focus]
  by (simp add: digit_def)

end
